theory Spec2Isabelle
  imports Complex_Main "HOL-Library.Sublist"
begin

section \<open>The chart renderer of \<^verbatim>\<open>scripts/render_synthetic_chart.py\<close>\<close>

text \<open>
  The script reads a JSON document, scales the series it holds into pixel coordinates and
  writes an SVG document. It is embedded stage by stage, in the order of its lines.

  Numbers: a decoded JSON number is held by its exact value, a \<^typ>\<open>rat\<close>, so the
  series of this development are the series of finite numbers (Python ints, finite floats
  and bools), and the arithmetic of the script is exact rational arithmetic. The rounding
  of IEEE-754 doubles, their overflow, their infinities and NaN are not part of this
  development; what is proved about coordinates is proved where the double arithmetic of
  the script is exact, or does not depend on the values at all.
\<close>

subsection \<open>Decoded JSON and the errors Python raises\<close>

text \<open>
  A decoded number is an int, a finite float or, as \<open>JBool\<close>, a bool. The floats that are
  no finite numbers (\<^verbatim>\<open>json.load\<close> yields them for \<^verbatim>\<open>1e400\<close>, \<^verbatim>\<open>Infinity\<close> and
  \<^verbatim>\<open>NaN\<close>) have no value here. A string holds characters below 256.
\<close>

datatype json =
    JNull
  | JBool bool
  | JNum rat
  | JStr string
  | JArr "json list"
  | JObj "(string \<times> json) list"

datatype py_error =
    FileNotFoundError
  | JSONDecodeError
  | KeyError
  | TypeError
  | ValueError
  | ZeroDivisionError
  | OverflowError
  | UnicodeEncodeError
  | OSError

text \<open>
  \<^verbatim>\<open>obj[key]\<close> with a string key: only a dict accepts it, and raises KeyError when the
  key is absent; a list, a string, a number, a bool and None raise TypeError. When the
  document repeats a key, the decoder keeps the last value.
\<close>

definition getitem :: "json \<Rightarrow> string \<Rightarrow> py_error + json" where
  "getitem obj key =
     (case obj of
        JObj kvs \<Rightarrow> (case map_of (rev kvs) key of None \<Rightarrow> Inl KeyError | Some v \<Rightarrow> Inr v)
      | _ \<Rightarrow> Inl TypeError)"

text \<open>
  \<^verbatim>\<open>for p in points\<close>: a list yields its elements, a dict its keys (in the order of
  their first occurrence), a string its characters; anything else is not iterable.
\<close>

definition iterate :: "json \<Rightarrow> py_error + json list" where
  "iterate points =
     (case points of
        JArr ps \<Rightarrow> Inr ps
      | JObj kvs \<Rightarrow> Inr (map JStr (rev (remdups (rev (map fst kvs)))))
      | JStr s \<Rightarrow> Inr (map (\<lambda>c. JStr [c]) s)
      | _ \<Rightarrow> Inl TypeError)"

text \<open>\<^verbatim>\<open>[p[key] for p in points]\<close>: the first element that fails ends the comprehension.\<close>

fun comprehension :: "string \<Rightarrow> json list \<Rightarrow> py_error + json list" where
  "comprehension key [] = Inr []"
| "comprehension key (p # ps) =
     (case getitem p key of
        Inl e \<Rightarrow> Inl e
      | Inr v \<Rightarrow> (case comprehension key ps of Inl e \<Rightarrow> Inl e | Inr vs \<Rightarrow> Inr (v # vs)))"

text \<open>
  Lines 10 to 12: \<^verbatim>\<open>points = payload['points']\<close>, then the list of the
  \<^verbatim>\<open>totalValue\<close> entries and the list of the \<^verbatim>\<open>label\<close> entries, in this order.
\<close>

definition load_series :: "json \<Rightarrow> py_error + (json list \<times> json list)" where
  "load_series payload =
     (case getitem payload ''points'' of
        Inl e \<Rightarrow> Inl e
      | Inr points \<Rightarrow>
          (case iterate points of
             Inl e \<Rightarrow> Inl e
           | Inr ps \<Rightarrow>
               (case comprehension ''totalValue'' ps of
                  Inl e \<Rightarrow> Inl e
                | Inr vals \<Rightarrow>
                    (case comprehension ''label'' ps of
                       Inl e \<Rightarrow> Inl e
                     | Inr labels \<Rightarrow> Inr (vals, labels)))))"

subsection \<open>Numbers\<close>

text \<open>
  What Python computes with: an int or a float, and a bool, which is the int 0 or 1.
  Every other decoded value is no number.
\<close>

fun as_number :: "json \<Rightarrow> rat option" where
  "as_number (JNum q) = Some q"
| "as_number (JBool b) = Some (if b then 1 else 0)"
| "as_number _ = None"

fun numbers :: "json list \<Rightarrow> rat list option" where
  "numbers [] = Some []"
| "numbers (v # vs) =
     (case as_number v of
        None \<Rightarrow> None
      | Some q \<Rightarrow> (case numbers vs of None \<Rightarrow> None | Some qs \<Rightarrow> Some (q # qs)))"

text \<open>
  Lines 19 to 21 on decoded values that are not numbers. On a list that holds a value
  that is no number, one of \<^verbatim>\<open>min\<close>, \<^verbatim>\<open>max\<close> and
  the subtraction raises TypeError: a comparison of a number with a string, a list, a
  dict or None does, so do the comparisons of two dicts and of two None, and where
  \<^verbatim>\<open>min\<close> and \<^verbatim>\<open>max\<close> both return (strings only, lists only, or a single
  element) the subtraction does.
\<close>

definition checked_values :: "json list \<Rightarrow> py_error + rat list" where
  "checked_values vals = (case numbers vals of None \<Rightarrow> Inl TypeError | Some qs \<Rightarrow> Inr qs)"

text \<open>\<^verbatim>\<open>min\<close> and \<^verbatim>\<open>max\<close> of a list of numbers: a scan from the first element.\<close>

fun py_min :: "rat list \<Rightarrow> py_error + rat" where
  "py_min [] = Inl ValueError"
| "py_min (v # vs) = Inr (fold (\<lambda>a m. if a < m then a else m) vs v)"

fun py_max :: "rat list \<Rightarrow> py_error + rat" where
  "py_max [] = Inl ValueError"
| "py_max (v # vs) = Inr (fold (\<lambda>a m. if a > m then a else m) vs v)"

subsection \<open>Geometry, lines 14 to 27\<close>

definition width :: int where "width = 900"
definition height :: int where "height = 420"
definition padding :: int where "padding = 60"
definition usable_width :: int where "usable_width = width - 2 * padding"
definition usable_height :: int where "usable_height = height - 2 * padding"

text \<open>\<^verbatim>\<open>val_range = max_val - min_val or 1\<close>: a difference of zero is replaced by 1.\<close>

definition val_range :: "rat \<Rightarrow> rat \<Rightarrow> rat" where
  "val_range max_val min_val = (if max_val - min_val = 0 then 1 else max_val - min_val)"

text \<open>
  Line 25, with \<open>n\<close> for \<^verbatim>\<open>len(values)\<close>: the division by \<open>n - 1\<close> is only
  evaluated when \<open>n > 1\<close>.
\<close>

definition x_coord :: "nat \<Rightarrow> nat \<Rightarrow> rat" where
  "x_coord n idx =
     (if n > 1 then of_int padding + of_int (usable_width * int idx) / of_int (int n - 1)
      else of_int padding + of_int usable_width / 2)"

text \<open>Line 26.\<close>

definition y_coord :: "rat \<Rightarrow> rat \<Rightarrow> rat \<Rightarrow> rat" where
  "y_coord min_val rng v = of_int padding + of_int usable_height * (1 - (v - min_val) / rng)"

text \<open>The loop of lines 23 to 27: one pair is appended for each element, in order.\<close>

definition coords :: "rat list \<Rightarrow> rat \<Rightarrow> rat \<Rightarrow> (rat \<times> rat) list" where
  "coords vals min_val rng =
     fold (\<lambda>(idx, v) acc. acc @ [(x_coord (length vals) idx, y_coord min_val rng v)])
          (enumerate 0 vals) []"

text \<open>Lines 19 to 27 together: the scaled points of a list of numbers.\<close>

definition scaled_points :: "rat list \<Rightarrow> py_error + (rat \<times> rat) list" where
  "scaled_points vals =
     (case py_min vals of
        Inl e \<Rightarrow> Inl e
      | Inr min_val \<Rightarrow>
          (case py_max vals of
             Inl e \<Rightarrow> Inl e
           | Inr max_val \<Rightarrow> Inr (coords vals min_val (val_range max_val min_val))))"

subsection \<open>Formatting\<close>

definition digit :: "nat \<Rightarrow> char" where
  "digit d = ''0123456789'' ! d"

fun str_nat :: "nat \<Rightarrow> string" where
  "str_nat n = (if n < 10 then [digit n] else str_nat (n div 10) @ [digit (n mod 10)])"

declare str_nat.simps [simp del]

text \<open>\<^verbatim>\<open>str\<close> of an int, as an f-string interpolates it.\<close>

definition str_int :: "int \<Rightarrow> string" where
  "str_int i = (if i < 0 then ''-'' @ str_nat (nat (- i)) else str_nat (nat i))"

text \<open>
  \<^verbatim>\<open>str\<close> of the float \<open>i / 2\<close> for an int \<open>0 \<le> i\<close> below \<open>10^16\<close>: the
  shortest representation has one digit after the point.
\<close>

definition str_half :: "int \<Rightarrow> string" where
  "str_half i = str_nat (nat i div 2) @ (if even i then ''.0'' else ''.5'')"

text \<open>The fixed-point formats round to the nearest, a tie to the even neighbour.\<close>

definition round_half_even :: "rat \<Rightarrow> int" where
  "round_half_even q =
     (let f = \<lfloor>q\<rfloor>; r = q - of_int f
      in if r < 1 / 2 then f else if 1 / 2 < r then f + 1 else if even f then f else f + 1)"

text \<open>\<^verbatim>\<open>{q:.2f}\<close>\<close>

definition format_2f :: "rat \<Rightarrow> string" where
  "format_2f q =
     (let n = nat (round_half_even (\<bar>q\<bar> * 100))
      in (if q < 0 then ''-'' else []) @ str_nat (n div 100) @ ''.'' @
         [digit (n div 10 mod 10), digit (n mod 10)])"

text \<open>The thousands separator, on the reversed digits.\<close>

fun group3 :: "string \<Rightarrow> string" where
  "group3 (a # b # c # d # r) = a # b # c # CHR '','' # group3 (d # r)"
| "group3 s = s"

text \<open>\<^verbatim>\<open>{q:,.0f}\<close>\<close>

definition format_comma_0f :: "rat \<Rightarrow> string" where
  "format_comma_0f q =
     (if q < 0 then ''-'' else []) @ rev (group3 (rev (str_nat (nat (round_half_even \<bar>q\<bar>)))))"

text \<open>\<^verbatim>\<open>sep.join(xs)\<close>\<close>

fun join :: "string \<Rightarrow> string list \<Rightarrow> string" where
  "join sep [] = []"
| "join sep [x] = x"
| "join sep (x # y # ys) = x @ sep @ join sep (y # ys)"

text \<open>A value between the two apostrophes of an attribute.\<close>

definition quoted :: "string \<Rightarrow> string" where
  "quoted v = CHR 0x27 # v @ [CHR 0x27]"

subsection \<open>The SVG elements, lines 29 to 51\<close>

definition path_d :: "(rat \<times> rat) list \<Rightarrow> string" where
  "path_d cs = ''M '' @ join '' L '' (map (\<lambda>(x, y). format_2f x @ '' '' @ format_2f y) cs)"

definition svg_head :: "string list" where
  "svg_head =
     [''<svg xmlns='http://www.w3.org/2000/svg' width='' @ quoted (str_int width) @
        '' height='' @ quoted (str_int height) @
        '' viewBox='' @ quoted (''0 0 '' @ str_int width @ '' '' @ str_int height) @ ''>'',
      ''  <rect width='100%' height='100%' fill='#0b1120' rx='16' />'',
      ''  <g stroke='#1f2937' stroke-width='1'>'']"

text \<open>Line 40, for the loop variable \<open>i\<close>.\<close>

definition grid_y :: "nat \<Rightarrow> rat" where
  "grid_y i = of_int padding + of_int (usable_height * int i) / 4"

text \<open>Line 41: a \<^verbatim>\<open>line\<close> element from \<open>x1\<close> to \<open>x2\<close> at height \<open>y\<close>.\<close>

definition line_element :: "int \<Rightarrow> rat \<Rightarrow> int \<Rightarrow> string" where
  "line_element x1 y x2 =
     ''    <line x1='' @ quoted (str_int x1) @ '' y1='' @ quoted (format_2f y) @
     '' x2='' @ quoted (str_int x2) @ '' y2='' @ quoted (format_2f y) @
     '' stroke-opacity='0.4' />''"

definition grid_lines :: "string list \<Rightarrow> string list" where
  "grid_lines acc =
     fold (\<lambda>i acc. acc @ [line_element padding (grid_y i) (width - padding)]) [0..<5] acc"

definition path_element :: "string \<Rightarrow> string" where
  "path_element d =
     ''  <path d='' @ quoted d @
     '' fill='none' stroke='#38bdf8' stroke-width='3' stroke-linecap='round' stroke-linejoin='round' />''"

definition circle_element :: "rat \<Rightarrow> rat \<Rightarrow> string" where
  "circle_element x y =
     ''  <circle cx='' @ quoted (format_2f x) @ '' cy='' @ quoted (format_2f y) @
     '' r='5' fill='#f97316' stroke='#fff' stroke-width='2' />''"

definition label_element :: "rat \<Rightarrow> string \<Rightarrow> string" where
  "label_element x label =
     ''  <text x='' @ quoted (format_2f x) @
     '' y='' @ quoted (format_2f (of_int height - of_int padding / 2)) @
     '' fill='#e2e8f0' font-size='14' text-anchor='middle'>'' @ label @ ''</text>''"

definition value_element :: "rat \<Rightarrow> rat \<Rightarrow> rat \<Rightarrow> string" where
  "value_element x y v =
     ''  <text x='' @ quoted (format_2f x) @ '' y='' @ quoted (format_2f (y - 12)) @
     '' fill='#38bdf8' font-size='12' text-anchor='middle'>$'' @ format_comma_0f v @ ''</text>''"

text \<open>The loop of lines 45 to 48; \<^verbatim>\<open>zip\<close> stops with the shortest list.\<close>

definition markers ::
  "(rat \<times> rat) list \<Rightarrow> string list \<Rightarrow> rat list \<Rightarrow> string list \<Rightarrow> string list" where
  "markers cs labels vals acc =
     fold (\<lambda>((x, y), label, v) acc.
             acc @ [circle_element x y] @ [label_element x label] @ [value_element x y v])
          (zip cs (zip labels vals)) acc"

definition title_element :: string where
  \<open>title_element =
     ''  <text x="'' @ str_half width @ ''" y="'' @ str_half padding @
     ''" fill="#e2e8f0" font-size="16" font-weight="bold">Synthetic trading performance (weekends skipped)</text>''\<close>

definition svg_lines :: "(rat \<times> rat) list \<Rightarrow> string list \<Rightarrow> rat list \<Rightarrow> string list" where
  "svg_lines cs labels vals =
     markers cs labels vals (grid_lines svg_head @ [''  </g>''] @ [path_element (path_d cs)])
     @ [title_element] @ [''</svg>'']"

text \<open>Lines 14 to 51: the lines of the document for the labels and values of a series.\<close>

definition render :: "string list \<Rightarrow> rat list \<Rightarrow> py_error + string list" where
  "render labels vals =
     (case scaled_points vals of
        Inl e \<Rightarrow> Inl e
      | Inr cs \<Rightarrow> Inr (svg_lines cs labels vals))"

subsection \<open>The script and its files\<close>

text \<open>
  What opening and decoding the data file gives: no file, a file that is no JSON
  document, or the decoded document.
\<close>

datatype file_content = Missing | Malformed | Document json

definition read_payload :: "file_content \<Rightarrow> py_error + json" where
  "read_payload f =
     (case f of
        Missing \<Rightarrow> Inl FileNotFoundError
      | Malformed \<Rightarrow> Inl JSONDecodeError
      | Document payload \<Rightarrow> Inr payload)"

text \<open>
  The text an f-string puts for a label: a string stands for itself, any other decoded
  value for its \<^verbatim>\<open>str\<close>. Python's \<^verbatim>\<open>str\<close> on the other values is no code of this
  repository; it is the parameter \<open>py_str\<close>.
\<close>

definition label_text :: "(json \<Rightarrow> string) \<Rightarrow> json \<Rightarrow> string" where
  "label_text py_str label = (case label of JStr s \<Rightarrow> s | _ \<Rightarrow> py_str label)"

text \<open>
  An int that no double holds. A value of magnitude \<open>2^1024 - 2^970\<close> or more is a Python
  int (a finite double is smaller), and its conversion to a double raises OverflowError.
  Line 48 converts every value (\<^verbatim>\<open>{value:,.0f}\<close>), so a series that holds such a value
  raises OverflowError there, if lines 21 and 26 have not raised it before.
\<close>

definition beyond_doubles :: "rat \<Rightarrow> bool" where
  "beyond_doubles q = (2 ^ 1024 - 2 ^ 970 \<le> \<bar>q\<bar>)"

text \<open>Lines 7 to 51 and the \<^verbatim>\<open>join\<close> of line 53: the text to write, or the error raised.\<close>

definition document_text :: "(json \<Rightarrow> string) \<Rightarrow> file_content \<Rightarrow> py_error + string" where
  "document_text py_str f =
     (case read_payload f of
        Inl e \<Rightarrow> Inl e
      | Inr payload \<Rightarrow>
          (case load_series payload of
             Inl e \<Rightarrow> Inl e
           | Inr (vals, labels) \<Rightarrow>
               (case checked_values vals of
                  Inl e \<Rightarrow> Inl e
                | Inr qs \<Rightarrow>
                    (case render (map (label_text py_str) labels) qs of
                       Inl e \<Rightarrow> Inl e
                     | Inr ls \<Rightarrow>
                         if list_ex beyond_doubles qs then Inl OverflowError
                         else Inr (join [CHR 0x0A] ls)))))"

text \<open>
  The files and the terminal: the data file, the output file (\<open>None\<close> while it does not
  exist), the absolute path \<^verbatim>\<open>OUTPUT_PATH.resolve()\<close> returns, and the lines printed.
\<close>

record world =
  data_file :: file_content
  output_file :: "string option"
  resolved_output_path :: string
  stdout :: "string list"

text \<open>
  What the operating system may do to lines 53 and 54: refuse to open the output file for
  writing, take only the first \<open>k\<close> characters of the text, or refuse the printed line.
\<close>

datatype os_fault = OpenRefused | WriteCut nat | PrintRefused

text \<open>
  What the script leaves to Python and to the system it runs on: \<^verbatim>\<open>str\<close> on a label
  that is no string, the codec \<^verbatim>\<open>write_text\<close> takes from the locale (\<open>encodable\<close> holds
  of the texts it encodes), and the fault of the operating system during the run, if any.
\<close>

record runtime =
  str_of :: "json \<Rightarrow> string"
  encodable :: "string \<Rightarrow> bool"
  fault :: "os_fault option"

text \<open>
  Line 53, \<^verbatim>\<open>OUTPUT_PATH.write_text(text)\<close>: the file is opened for writing, which
  empties it; then the whole text is encoded, and UnicodeEncodeError is raised before
  anything is written when the codec rejects it; then the text is written.
\<close>

definition write_text :: "runtime \<Rightarrow> string \<Rightarrow> world \<Rightarrow> (py_error + unit) \<times> world" where
  "write_text rt text w =
     (if fault rt = Some OpenRefused then (Inl OSError, w)
      else if \<not> encodable rt text then (Inl UnicodeEncodeError, w\<lparr>output_file := Some []\<rparr>)
      else case fault rt of
             Some (WriteCut k) \<Rightarrow> (Inl OSError, w\<lparr>output_file := Some (take k text)\<rparr>)
           | _ \<Rightarrow> (Inr (), w\<lparr>output_file := Some text\<rparr>))"

text \<open>Line 54.\<close>

definition print_saved :: "runtime \<Rightarrow> world \<Rightarrow> (py_error + unit) \<times> world" where
  "print_saved rt w =
     (if fault rt = Some PrintRefused then (Inl OSError, w)
      else (Inr (), w\<lparr>stdout := stdout w @ [''Saved chart to '' @ resolved_output_path w]\<rparr>))"

text \<open>
  The whole script: an error ends it where it is raised. An error of lines 7 to 51 is
  raised before line 53 is reached; otherwise the text is written and the confirmation
  printed.
\<close>

definition main :: "runtime \<Rightarrow> world \<Rightarrow> (py_error + unit) \<times> world" where
  "main rt w =
     (case document_text (str_of rt) (data_file w) of
        Inl e \<Rightarrow> (Inl e, w)
      | Inr text \<Rightarrow>
          (case write_text rt text w of
             (Inl e, w') \<Rightarrow> (Inl e, w')
           | (Inr u, w') \<Rightarrow> print_saved rt w'))"

section \<open>Properties\<close>

subsection \<open>The loops as maps\<close>

lemma fold_snoc_map: "fold (\<lambda>a acc. acc @ [f a]) xs acc = acc @ map f xs"
  by (induction xs arbitrary: acc) simp_all

lemma fold_snoc_concat: "fold (\<lambda>a acc. acc @ g a) xs acc = acc @ concat (map g xs)"
  by (induction xs arbitrary: acc) simp_all




subsection \<open>Minimum, maximum and the scaled points of a non-empty list\<close>




subsection \<open>A series of equal values\<close>




subsection \<open>The empty series\<close>

text \<open>
  C2, as the specification states it, fails: on the empty series the error raised is the
  ValueError of \<^verbatim>\<open>min\<close> (line 19), not a ZeroDivisionError.
\<close>

theorem empty_series_division_counterexample:
  "render [] [] = Inl ValueError \<and> render [] [] \<noteq> Inl ZeroDivisionError"
  by (simp add: render_def scaled_points_def)

text \<open>
  C2, amended: when the data file holds a document whose \<^verbatim>\<open>points\<close> entry is the
  empty array, the script fails before it writes any output (files and terminal are left
  as they were), and the failure is the ValueError that \<^verbatim>\<open>min\<close> raises on an empty
  list, before any division is evaluated.
\<close>

theorem empty_points_raise_ValueError:
  assumes "data_file w = Document payload" and "getitem payload ''points'' = Inr (JArr [])"
  shows "main rt w = (Inl ValueError, w)"
  using assms
  by (simp add: main_def document_text_def read_payload_def load_series_def iterate_def
      checked_values_def render_def scaled_points_def)

theorem empty_points_raise_ValueError_witness:
  "main \<lparr>str_of = \<lambda>v. [], encodable = \<lambda>s. True, fault = None\<rparr>
     \<lparr>data_file = Document (JObj [(''points'', JArr [])]), output_file = Some ''<svg/>'',
      resolved_output_path = ''/srv/scripts/output/synthetic_chart.svg'', stdout = []\<rparr>
   = (Inl ValueError,
      \<lparr>data_file = Document (JObj [(''points'', JArr [])]), output_file = Some ''<svg/>'',
      resolved_output_path = ''/srv/scripts/output/synthetic_chart.svg'', stdout = []\<rparr>)"
  using empty_points_raise_ValueError
    [of "\<lparr>data_file = Document (JObj [(''points'', JArr [])]), output_file = Some ''<svg/>'',
      resolved_output_path = ''/srv/scripts/output/synthetic_chart.svg'', stdout = []\<rparr>"
        "JObj [(''points'', JArr [])]"
        "\<lparr>str_of = \<lambda>v. [], encodable = \<lambda>s. True, fault = None\<rparr>"]
  by (simp add: getitem_def)

subsection \<open>The layout of the document\<close>

lemma markers_concat:
  "markers cs labels vals acc =
     acc @ concat (map (\<lambda>((x, y), label, v).
                          [circle_element x y, label_element x label, value_element x y v])
                       (zip cs (zip labels vals)))"
proof -
  have "(\<lambda>((x, y), label, v) acc.
           acc @ [circle_element x y] @ [label_element x label] @ [value_element x y v]) =
        (\<lambda>a acc. acc @ (\<lambda>((x, y), label, v).
           [circle_element x y, label_element x label, value_element x y v]) a)"
    by (simp add: fun_eq_iff split: prod.splits)
  then show ?thesis
    unfolding markers_def by (simp only: fold_snoc_concat)
qed

lemma grid_lines_map:
  "grid_lines acc =
     acc @ map (\<lambda>i. line_element padding (grid_y i) (width - padding)) [0..<5]"
  unfolding grid_lines_def by (rule fold_snoc_map)

lemma svg_lines_layout:
  "svg_lines cs labels vals =
     svg_head @
     map (\<lambda>i. line_element padding (grid_y i) (width - padding)) [0..<5] @
     [''  </g>'', path_element (path_d cs)] @
     concat (map (\<lambda>((x, y), label, v).
                    [circle_element x y, label_element x label, value_element x y v])
                 (zip cs (zip labels vals))) @
     [title_element, ''</svg>'']"
  by (simp add: svg_lines_def markers_concat grid_lines_map)






subsection \<open>The horizontal scale\<close>



text \<open>
  C6: for every series with exactly one point, the scaled point is computed and its
  x-coordinate is \<open>padding + usable_width / 2\<close>: the point is centred horizontally. (Its
  y-coordinate is \<open>padding + usable_height\<close>.)
\<close>

theorem single_point_centred:
  "scaled_points [v] =
     Inr [(of_int padding + of_int usable_width / 2, of_int padding + of_int usable_height)]"
  by (simp add: scaled_points_def coords_def x_coord_def y_coord_def val_range_def)

subsection \<open>The point markers\<close>









subsection \<open>The gridlines\<close>












subsection \<open>Files: determinism and failure\<close>

lemma main_before_write:
  "document_text (str_of rt) (data_file w) = Inl e \<Longrightarrow> main rt w = (Inl e, w)"
  by (simp add: main_def)

lemma main_at_write:
  assumes "document_text (str_of rt) (data_file w) = Inr doc"
  shows "main rt w =
     (if fault rt = Some OpenRefused then (Inl OSError, w)
      else if \<not> encodable rt doc then (Inl UnicodeEncodeError, w\<lparr>output_file := Some []\<rparr>)
      else case fault rt of
             Some (WriteCut k) \<Rightarrow> (Inl OSError, w\<lparr>output_file := Some (take k doc)\<rparr>)
           | Some PrintRefused \<Rightarrow> (Inl OSError, w\<lparr>output_file := Some doc\<rparr>)
           | _ \<Rightarrow> (Inr (), w\<lparr>output_file := Some doc,
                              stdout := stdout w @ [''Saved chart to '' @ resolved_output_path w]\<rparr>))"
  using assms
  by (simp add: main_def write_text_def print_saved_def split: option.splits os_fault.splits)

lemma main_data_file: "data_file (snd (main rt w)) = data_file w"
proof (cases "document_text (str_of rt) (data_file w)")
  case (Inl e)
  then show ?thesis by (simp add: main_before_write)
next
  case (Inr doc)
  show ?thesis
    by (simp add: main_at_write [OF Inr] split: option.splits os_fault.splits)
qed

text \<open>
  C7: the outcome of a run and the text it writes depend on the data file alone. Two runs
  of the same Python on the same system, from worlds with the same data file, whatever the
  output file, the terminal and the resolved path hold, end alike (both succeed or both
  raise the same error), and when they succeed they write the same text. A second run
  after a first one ends as the first did and leaves the same output file.
\<close>

theorem rendering_is_deterministic:
  assumes "data_file w1 = data_file w2"
  shows "fst (main rt w1) = fst (main rt w2) \<and>
         (fst (main rt w1) = Inr () \<longrightarrow>
            output_file (snd (main rt w1)) = output_file (snd (main rt w2)) \<and>
            output_file (snd (main rt w1)) \<noteq> None) \<and>
         fst (main rt (snd (main rt w1))) = fst (main rt w1) \<and>
         output_file (snd (main rt (snd (main rt w1)))) = output_file (snd (main rt w1))"
proof (cases "document_text (str_of rt) (data_file w1)")
  case (Inl e)
  then show ?thesis
    using assms by (simp add: main_before_write)
next
  case (Inr doc)
  define w' where "w' = snd (main rt w1)"
  have "document_text (str_of rt) (data_file w2) = Inr doc"
    using Inr assms by simp
  note m2 = main_at_write [OF this]
  have "document_text (str_of rt) (data_file w') = Inr doc"
    using Inr by (simp add: w'_def main_data_file)
  note m3 = main_at_write [OF this]
  note m1 = main_at_write [OF Inr]
  have a: "fst (main rt w1) = fst (main rt w2)"
    by (simp add: m1 m2 split: option.splits os_fault.splits)
  have b: "output_file (snd (main rt w1)) = output_file (snd (main rt w2)) \<and>
      output_file (snd (main rt w1)) \<noteq> None" if "fst (main rt w1) = Inr ()"
    using that by (simp add: m1 m2 split: option.splits os_fault.splits if_splits)
  have c: "fst (main rt w') = fst (main rt w1)"
    by (simp add: m1 m3 split: option.splits os_fault.splits)
  have d: "output_file (snd (main rt w')) = output_file (snd (main rt w1))"
    unfolding m3 by (simp add: w'_def m1 split: option.splits os_fault.splits)
  from a b c d show ?thesis
    unfolding w'_def by blast
qed

theorem rendering_is_deterministic_witness:
  "data_file \<lparr>data_file = Document (JObj [(''points'', JArr [JObj [(''label'', JStr ''W1''), (''totalValue'', JNum 1000)]])]),
        output_file = None, resolved_output_path = ''/a/synthetic_chart.svg'', stdout = []\<rparr> = data_file \<lparr>data_file = Document (JObj [(''points'', JArr [JObj [(''label'', JStr ''W1''), (''totalValue'', JNum 1000)]])]),
        output_file = Some ''old'', resolved_output_path = ''/b/synthetic_chart.svg'',
        stdout = [''earlier'']\<rparr> \<and>
   fst (main \<lparr>str_of = \<lambda>v. [], encodable = \<lambda>s. True, fault = None\<rparr> \<lparr>data_file = Document (JObj [(''points'', JArr [JObj [(''label'', JStr ''W1''), (''totalValue'', JNum 1000)]])]),
        output_file = None, resolved_output_path = ''/a/synthetic_chart.svg'', stdout = []\<rparr>) = Inr () \<and>
   fst (main \<lparr>str_of = \<lambda>v. [], encodable = \<lambda>s. True, fault = None\<rparr> \<lparr>data_file = Document (JObj [(''points'', JArr [JObj [(''label'', JStr ''W1''), (''totalValue'', JNum 1000)]])]),
        output_file = Some ''old'', resolved_output_path = ''/b/synthetic_chart.svg'',
        stdout = [''earlier'']\<rparr>) = Inr () \<and>
   output_file (snd (main \<lparr>str_of = \<lambda>v. [], encodable = \<lambda>s. True, fault = None\<rparr> \<lparr>data_file = Document (JObj [(''points'', JArr [JObj [(''label'', JStr ''W1''), (''totalValue'', JNum 1000)]])]),
        output_file = None, resolved_output_path = ''/a/synthetic_chart.svg'', stdout = []\<rparr>)) = output_file (snd (main \<lparr>str_of = \<lambda>v. [], encodable = \<lambda>s. True, fault = None\<rparr> \<lparr>data_file = Document (JObj [(''points'', JArr [JObj [(''label'', JStr ''W1''), (''totalValue'', JNum 1000)]])]),
        output_file = Some ''old'', resolved_output_path = ''/b/synthetic_chart.svg'',
        stdout = [''earlier'']\<rparr>)) \<and>
   output_file (snd (main \<lparr>str_of = \<lambda>v. [], encodable = \<lambda>s. True, fault = None\<rparr> \<lparr>data_file = Document (JObj [(''points'', JArr [JObj [(''label'', JStr ''W1''), (''totalValue'', JNum 1000)]])]),
        output_file = None, resolved_output_path = ''/a/synthetic_chart.svg'', stdout = []\<rparr>)) \<noteq> None \<and>
   output_file (snd (main \<lparr>str_of = \<lambda>v. [], encodable = \<lambda>s. True, fault = None\<rparr> (snd (main \<lparr>str_of = \<lambda>v. [], encodable = \<lambda>s. True, fault = None\<rparr> \<lparr>data_file = Document (JObj [(''points'', JArr [JObj [(''label'', JStr ''W1''), (''totalValue'', JNum 1000)]])]),
        output_file = None, resolved_output_path = ''/a/synthetic_chart.svg'', stdout = []\<rparr>)))) =
     output_file (snd (main \<lparr>str_of = \<lambda>v. [], encodable = \<lambda>s. True, fault = None\<rparr> \<lparr>data_file = Document (JObj [(''points'', JArr [JObj [(''label'', JStr ''W1''), (''totalValue'', JNum 1000)]])]),
        output_file = None, resolved_output_path = ''/a/synthetic_chart.svg'', stdout = []\<rparr>))"
proof -
  have a: "data_file \<lparr>data_file = Document (JObj [(''points'', JArr [JObj [(''label'', JStr ''W1''), (''totalValue'', JNum 1000)]])]),
        output_file = None, resolved_output_path = ''/a/synthetic_chart.svg'', stdout = []\<rparr> = data_file \<lparr>data_file = Document (JObj [(''points'', JArr [JObj [(''label'', JStr ''W1''), (''totalValue'', JNum 1000)]])]),
        output_file = Some ''old'', resolved_output_path = ''/b/synthetic_chart.svg'',
        stdout = [''earlier'']\<rparr>"
    by simp
  have b: "fst (main \<lparr>str_of = \<lambda>v. [], encodable = \<lambda>s. True, fault = None\<rparr> \<lparr>data_file = Document (JObj [(''points'', JArr [JObj [(''label'', JStr ''W1''), (''totalValue'', JNum 1000)]])]),
        output_file = None, resolved_output_path = ''/a/synthetic_chart.svg'', stdout = []\<rparr>) = Inr ()"
    by (simp add: main_def write_text_def print_saved_def document_text_def read_payload_def
        load_series_def getitem_def iterate_def checked_values_def render_def scaled_points_def
        beyond_doubles_def)
  from a b rendering_is_deterministic [OF a, of "\<lparr>str_of = \<lambda>v. [], encodable = \<lambda>s. True, fault = None\<rparr>"] show ?thesis by metis
qed

lemma comprehension_fails:
  assumes "p \<in> set ps" and "getitem p key = Inl e"
  shows "\<exists>e'. comprehension key ps = Inl e'"
  using assms by (induction ps) (auto split: sum.splits)

lemma comprehension_length: "comprehension key ps = Inr vs \<Longrightarrow> length vs = length ps"
  by (induction ps arbitrary: vs) (auto split: sum.splits)

text \<open>The two lists that the script zips have the length of the \<^verbatim>\<open>points\<close> list.\<close>

lemma load_series_lengths:
  assumes "load_series payload = Inr (vals, labels)"
  shows "length vals = length labels"
proof -
  from assms obtain ps where "comprehension ''totalValue'' ps = Inr vals"
    and "comprehension ''label'' ps = Inr labels"
    by (auto simp: load_series_def split: sum.splits)
  then show ?thesis by (simp add: comprehension_length)
qed

text \<open>The characters of a label are characters of the text that is written.\<close>

lemma set_join: "x \<in> set xs \<Longrightarrow> set x \<subseteq> set (join sep xs)"
  by (induction sep xs rule: join.induct) auto

lemma label_in_document:
  assumes "document_text py_str f = Inr doc"
    and "f = Document (JObj [(''points'', JArr [JObj [(''label'', JStr label), (''totalValue'', JNum v)]])])"
  shows "set label \<subseteq> set doc"
proof -
  obtain cs where cs: "scaled_points [v] = Inr cs" and len: "length cs = 1"
    by (simp add: scaled_points_def coords_def)
  then obtain x y where xy: "cs = [(x, y)]"
    by (cases cs) (auto split: prod.splits)
  have doc: "doc = join [CHR 0x0A] (svg_lines cs [label] [v])"
    using assms cs
    by (simp add: document_text_def read_payload_def load_series_def getitem_def iterate_def
        checked_values_def render_def label_text_def split: if_splits)
  have "label_element x label \<in> set (svg_lines cs [label] [v])"
    by (simp add: svg_lines_layout xy)
  then have "set (label_element x label) \<subseteq> set doc"
    unfolding doc by (rule set_join)
  moreover have "set label \<subseteq> set (label_element x label)"
    by (auto simp: label_element_def)
  ultimately show ?thesis by blast
qed

lemma accented_label_document:
  "\<exists>doc. document_text py_str (Document (JObj [(''points'', JArr [JObj [(''label'', JStr [CHR 0xE9]), (''totalValue'', JNum 1000)]])])) = Inr doc \<and> CHR 0xE9 \<in> set doc"
proof -
  obtain doc where t: "document_text py_str (Document (JObj [(''points'', JArr [JObj [(''label'', JStr [CHR 0xE9]), (''totalValue'', JNum 1000)]])])) = Inr doc"
    by (simp add: document_text_def read_payload_def load_series_def getitem_def iterate_def
        checked_values_def render_def scaled_points_def beyond_doubles_def)
  from label_in_document [OF t refl] have "CHR 0xE9 \<in> set doc" by simp
  with t show ?thesis by blast
qed

text \<open>
  C9, as the specification states it, fails: not every error leaves the output file
  unchanged. Take a data file whose one label holds the character \<open>U+00E9\<close>, an output
  file that holds \<open>old\<close>, and a locale whose codec encodes the characters below 128 only.
  The run ends with UnicodeEncodeError raised by \<^verbatim>\<open>write_text\<close>, which has emptied the
  output file when it opened it. (Under a UTF-8 locale a label that holds a lone surrogate
  does the same.)
\<close>

theorem write_failure_counterexample:
  "main \<lparr>str_of = \<lambda>v. [], encodable = \<lambda>s. \<forall>c\<in>set s. of_char c < (128 :: nat), fault = None\<rparr>
     \<lparr>data_file = Document (JObj [(''points'', JArr [JObj [(''label'', JStr [CHR 0xE9]), (''totalValue'', JNum 1000)]])]),
        output_file = Some ''old'', resolved_output_path = ''/a/synthetic_chart.svg'', stdout = []\<rparr>
   = (Inl UnicodeEncodeError,
      \<lparr>data_file = Document (JObj [(''points'', JArr [JObj [(''label'', JStr [CHR 0xE9]), (''totalValue'', JNum 1000)]])]),
        output_file = Some [], resolved_output_path = ''/a/synthetic_chart.svg'', stdout = []\<rparr>)"
proof -
  obtain doc where t: "document_text (\<lambda>v. []) (Document (JObj [(''points'', JArr [JObj [(''label'', JStr [CHR 0xE9]), (''totalValue'', JNum 1000)]])])) = Inr doc" and c: "CHR 0xE9 \<in> set doc"
    using accented_label_document by blast
  have "\<not> (\<forall>c\<in>set doc. of_char c < (128 :: nat))"
    using c by (auto intro!: bexI [of _ "CHR 0xE9"])
  then show ?thesis
    using t by (simp add: main_def write_text_def)
qed

text \<open>
  C9, amended: every error that is raised before line 53 ends the run before anything is
  written, and the files and the terminal are as they were: a missing data file
  (FileNotFoundError), a file that is no JSON document (JSONDecodeError), a document
  without the \<^verbatim>\<open>points\<close> key (KeyError), a point without one of the keys
  \<^verbatim>\<open>totalValue\<close> and \<^verbatim>\<open>label\<close> (an error), an empty \<^verbatim>\<open>points\<close> array
  (ValueError), and any other error of lines 7 to 51. An error of the write itself is
  different: unless the open is refused, the output file has been emptied when the codec
  rejects the rendered text, and the run ends with UnicodeEncodeError and an empty output
  file.
\<close>

theorem failure_before_write_changes_nothing:
  "(document_text (str_of rt) (data_file w) = Inl e \<longrightarrow> main rt w = (Inl e, w)) \<and>
   (data_file w = Missing \<longrightarrow> main rt w = (Inl FileNotFoundError, w)) \<and>
   (data_file w = Malformed \<longrightarrow> main rt w = (Inl JSONDecodeError, w)) \<and>
   (data_file w = Document payload \<and> getitem payload ''points'' = Inl KeyError \<longrightarrow>
      main rt w = (Inl KeyError, w)) \<and>
   (data_file w = Document payload \<and> getitem payload ''points'' = Inr (JArr ps) \<and>
    p \<in> set ps \<and> (getitem p ''totalValue'' = Inl KeyError \<or> getitem p ''label'' = Inl KeyError) \<longrightarrow>
      (\<exists>e'. main rt w = (Inl e', w))) \<and>
   (data_file w = Document payload \<and> getitem payload ''points'' = Inr (JArr []) \<longrightarrow>
      main rt w = (Inl ValueError, w)) \<and>
   (document_text (str_of rt) (data_file w) = Inr doc \<and> fault rt \<noteq> Some OpenRefused \<and>
    \<not> encodable rt doc \<longrightarrow>
      main rt w = (Inl UnicodeEncodeError, w\<lparr>output_file := Some []\<rparr>))"
proof -
  have a: "document_text (str_of rt) (data_file w) = Inl e \<longrightarrow> main rt w = (Inl e, w)"
    by (simp add: main_def)
  have b: "data_file w = Missing \<longrightarrow> main rt w = (Inl FileNotFoundError, w)"
    by (simp add: main_def document_text_def read_payload_def)
  have c: "data_file w = Malformed \<longrightarrow> main rt w = (Inl JSONDecodeError, w)"
    by (simp add: main_def document_text_def read_payload_def)
  have d: "data_file w = Document payload \<and> getitem payload ''points'' = Inl KeyError \<longrightarrow>
      main rt w = (Inl KeyError, w)"
    by (simp add: main_def document_text_def read_payload_def load_series_def)
  have e: "\<exists>e'. main rt w = (Inl e', w)"
    if "data_file w = Document payload" "getitem payload ''points'' = Inr (JArr ps)"
       "p \<in> set ps" "getitem p ''totalValue'' = Inl KeyError \<or> getitem p ''label'' = Inl KeyError"
  proof -
    have "\<exists>e'. load_series payload = Inl e'"
      using that comprehension_fails [of p ps "''totalValue''" KeyError]
        comprehension_fails [of p ps "''label''" KeyError]
      by (auto simp: load_series_def iterate_def split: sum.splits)
    then show ?thesis
      using that(1) by (auto simp: main_def document_text_def read_payload_def)
  qed
  have f: "data_file w = Document payload \<and> getitem payload ''points'' = Inr (JArr []) \<longrightarrow>
      main rt w = (Inl ValueError, w)"
    by (simp add: main_def document_text_def read_payload_def load_series_def iterate_def
        checked_values_def render_def scaled_points_def)
  have g: "document_text (str_of rt) (data_file w) = Inr doc \<and> fault rt \<noteq> Some OpenRefused \<and>
      \<not> encodable rt doc \<longrightarrow>
        main rt w = (Inl UnicodeEncodeError, w\<lparr>output_file := Some []\<rparr>)"
    by (simp add: main_def write_text_def)
  from a b c d e f g show ?thesis by blast
qed

theorem failure_before_write_changes_nothing_witness:
  "main \<lparr>str_of = \<lambda>v. [], encodable = \<lambda>s. True, fault = None\<rparr> \<lparr>data_file = Missing, output_file = Some ''old'',
        resolved_output_path = ''/a/synthetic_chart.svg'', stdout = []\<rparr> = (Inl FileNotFoundError, \<lparr>data_file = Missing, output_file = Some ''old'',
        resolved_output_path = ''/a/synthetic_chart.svg'', stdout = []\<rparr>) \<and>
   main \<lparr>str_of = \<lambda>v. [], encodable = \<lambda>s. True, fault = None\<rparr> \<lparr>data_file = Malformed, output_file = Some ''old'',
        resolved_output_path = ''/a/synthetic_chart.svg'', stdout = []\<rparr> = (Inl JSONDecodeError, \<lparr>data_file = Malformed, output_file = Some ''old'',
        resolved_output_path = ''/a/synthetic_chart.svg'', stdout = []\<rparr>) \<and>
   main \<lparr>str_of = \<lambda>v. [], encodable = \<lambda>s. True, fault = None\<rparr> \<lparr>data_file = Document (JObj [(''series'', JArr [])]), output_file = Some ''old'',
        resolved_output_path = ''/a/synthetic_chart.svg'', stdout = []\<rparr> = (Inl KeyError, \<lparr>data_file = Document (JObj [(''series'', JArr [])]), output_file = Some ''old'',
        resolved_output_path = ''/a/synthetic_chart.svg'', stdout = []\<rparr>) \<and>
   main \<lparr>str_of = \<lambda>v. [], encodable = \<lambda>s. True, fault = None\<rparr> \<lparr>data_file = Document (JObj [(''points'', JArr [JObj [(''totalValue'', JNum 1000)]])]), output_file = Some ''old'',
        resolved_output_path = ''/a/synthetic_chart.svg'', stdout = []\<rparr> = (Inl KeyError, \<lparr>data_file = Document (JObj [(''points'', JArr [JObj [(''totalValue'', JNum 1000)]])]), output_file = Some ''old'',
        resolved_output_path = ''/a/synthetic_chart.svg'', stdout = []\<rparr>) \<and>
   main \<lparr>str_of = \<lambda>v. [], encodable = \<lambda>s. True, fault = None\<rparr> \<lparr>data_file = Document (JObj [(''points'', JArr [])]), output_file = Some ''old'',
        resolved_output_path = ''/a/synthetic_chart.svg'', stdout = []\<rparr> = (Inl ValueError, \<lparr>data_file = Document (JObj [(''points'', JArr [])]), output_file = Some ''old'',
        resolved_output_path = ''/a/synthetic_chart.svg'', stdout = []\<rparr>) \<and>
   main \<lparr>str_of = \<lambda>v. [], encodable = \<lambda>s. \<forall>c\<in>set s. of_char c < (128 :: nat), fault = None\<rparr>
     \<lparr>data_file = Document (JObj [(''points'', JArr [JObj [(''label'', JStr [CHR 0xE9]), (''totalValue'', JNum 1000)]])]),
        output_file = Some ''old'', resolved_output_path = ''/a/synthetic_chart.svg'', stdout = []\<rparr>
   = (Inl UnicodeEncodeError,
      \<lparr>data_file = Document (JObj [(''points'', JArr [JObj [(''label'', JStr [CHR 0xE9]), (''totalValue'', JNum 1000)]])]),
        output_file = Some [], resolved_output_path = ''/a/synthetic_chart.svg'', stdout = []\<rparr>)"
proof -
  have m: "data_file \<lparr>data_file = Missing, output_file = Some ''old'',
        resolved_output_path = ''/a/synthetic_chart.svg'', stdout = []\<rparr> = Missing"
    by simp
  have j: "data_file \<lparr>data_file = Malformed, output_file = Some ''old'',
        resolved_output_path = ''/a/synthetic_chart.svg'', stdout = []\<rparr> = Malformed"
    by simp
  have k: "data_file \<lparr>data_file = Document (JObj [(''series'', JArr [])]), output_file = Some ''old'',
        resolved_output_path = ''/a/synthetic_chart.svg'', stdout = []\<rparr> = Document (JObj [(''series'', JArr [])]) \<and>
      getitem (JObj [(''series'', JArr [])]) ''points'' = Inl KeyError"
    by (simp add: getitem_def)
  have l: "document_text (str_of \<lparr>str_of = \<lambda>v. [], encodable = \<lambda>s. True, fault = None\<rparr>) (data_file \<lparr>data_file = Document (JObj [(''points'', JArr [JObj [(''totalValue'', JNum 1000)]])]), output_file = Some ''old'',
        resolved_output_path = ''/a/synthetic_chart.svg'', stdout = []\<rparr>) = Inl KeyError"
    by (simp add: document_text_def read_payload_def load_series_def getitem_def iterate_def)
  have e: "data_file \<lparr>data_file = Document (JObj [(''points'', JArr [])]), output_file = Some ''old'',
        resolved_output_path = ''/a/synthetic_chart.svg'', stdout = []\<rparr> = Document (JObj [(''points'', JArr [])]) \<and>
      getitem (JObj [(''points'', JArr [])]) ''points'' = Inr (JArr [])"
    by (simp add: getitem_def)
  obtain doc where t: "document_text (\<lambda>v. []) (Document (JObj [(''points'', JArr [JObj [(''label'', JStr [CHR 0xE9]), (''totalValue'', JNum 1000)]])])) = Inr doc" and c: "CHR 0xE9 \<in> set doc"
    using accented_label_document by blast
  have n: "\<not> (\<forall>c\<in>set doc. of_char c < (128 :: nat))"
    using c by (auto intro!: bexI [of _ "CHR 0xE9"])
  have 1: "main \<lparr>str_of = \<lambda>v. [], encodable = \<lambda>s. True, fault = None\<rparr> \<lparr>data_file = Missing, output_file = Some ''old'',
        resolved_output_path = ''/a/synthetic_chart.svg'', stdout = []\<rparr> = (Inl FileNotFoundError, \<lparr>data_file = Missing, output_file = Some ''old'',
        resolved_output_path = ''/a/synthetic_chart.svg'', stdout = []\<rparr>)"
    using m failure_before_write_changes_nothing [of "\<lparr>str_of = \<lambda>v. [], encodable = \<lambda>s. True, fault = None\<rparr>" "\<lparr>data_file = Missing, output_file = Some ''old'',
        resolved_output_path = ''/a/synthetic_chart.svg'', stdout = []\<rparr>"] by blast
  have 2: "main \<lparr>str_of = \<lambda>v. [], encodable = \<lambda>s. True, fault = None\<rparr> \<lparr>data_file = Malformed, output_file = Some ''old'',
        resolved_output_path = ''/a/synthetic_chart.svg'', stdout = []\<rparr> = (Inl JSONDecodeError, \<lparr>data_file = Malformed, output_file = Some ''old'',
        resolved_output_path = ''/a/synthetic_chart.svg'', stdout = []\<rparr>)"
    using j failure_before_write_changes_nothing [of "\<lparr>str_of = \<lambda>v. [], encodable = \<lambda>s. True, fault = None\<rparr>" "\<lparr>data_file = Malformed, output_file = Some ''old'',
        resolved_output_path = ''/a/synthetic_chart.svg'', stdout = []\<rparr>"] by blast
  have 3: "main \<lparr>str_of = \<lambda>v. [], encodable = \<lambda>s. True, fault = None\<rparr> \<lparr>data_file = Document (JObj [(''series'', JArr [])]), output_file = Some ''old'',
        resolved_output_path = ''/a/synthetic_chart.svg'', stdout = []\<rparr> = (Inl KeyError, \<lparr>data_file = Document (JObj [(''series'', JArr [])]), output_file = Some ''old'',
        resolved_output_path = ''/a/synthetic_chart.svg'', stdout = []\<rparr>)"
    using k failure_before_write_changes_nothing [of "\<lparr>str_of = \<lambda>v. [], encodable = \<lambda>s. True, fault = None\<rparr>" "\<lparr>data_file = Document (JObj [(''series'', JArr [])]), output_file = Some ''old'',
        resolved_output_path = ''/a/synthetic_chart.svg'', stdout = []\<rparr>" _ "JObj [(''series'', JArr [])]"] by blast
  have 4: "main \<lparr>str_of = \<lambda>v. [], encodable = \<lambda>s. True, fault = None\<rparr> \<lparr>data_file = Document (JObj [(''points'', JArr [JObj [(''totalValue'', JNum 1000)]])]), output_file = Some ''old'',
        resolved_output_path = ''/a/synthetic_chart.svg'', stdout = []\<rparr> = (Inl KeyError, \<lparr>data_file = Document (JObj [(''points'', JArr [JObj [(''totalValue'', JNum 1000)]])]), output_file = Some ''old'',
        resolved_output_path = ''/a/synthetic_chart.svg'', stdout = []\<rparr>)"
    using l failure_before_write_changes_nothing [of "\<lparr>str_of = \<lambda>v. [], encodable = \<lambda>s. True, fault = None\<rparr>" "\<lparr>data_file = Document (JObj [(''points'', JArr [JObj [(''totalValue'', JNum 1000)]])]), output_file = Some ''old'',
        resolved_output_path = ''/a/synthetic_chart.svg'', stdout = []\<rparr>" KeyError] by blast
  have 5: "main \<lparr>str_of = \<lambda>v. [], encodable = \<lambda>s. True, fault = None\<rparr> \<lparr>data_file = Document (JObj [(''points'', JArr [])]), output_file = Some ''old'',
        resolved_output_path = ''/a/synthetic_chart.svg'', stdout = []\<rparr> = (Inl ValueError, \<lparr>data_file = Document (JObj [(''points'', JArr [])]), output_file = Some ''old'',
        resolved_output_path = ''/a/synthetic_chart.svg'', stdout = []\<rparr>)"
    using e failure_before_write_changes_nothing [of "\<lparr>str_of = \<lambda>v. [], encodable = \<lambda>s. True, fault = None\<rparr>" "\<lparr>data_file = Document (JObj [(''points'', JArr [])]), output_file = Some ''old'',
        resolved_output_path = ''/a/synthetic_chart.svg'', stdout = []\<rparr>" _ "JObj [(''points'', JArr [])]"] by blast
  have 6: "main \<lparr>str_of = \<lambda>v. [], encodable = \<lambda>s. \<forall>c\<in>set s. of_char c < (128 :: nat), fault = None\<rparr>
     \<lparr>data_file = Document (JObj [(''points'', JArr [JObj [(''label'', JStr [CHR 0xE9]), (''totalValue'', JNum 1000)]])]),
        output_file = Some ''old'', resolved_output_path = ''/a/synthetic_chart.svg'', stdout = []\<rparr>
   = (Inl UnicodeEncodeError,
      \<lparr>data_file = Document (JObj [(''points'', JArr [JObj [(''label'', JStr [CHR 0xE9]), (''totalValue'', JNum 1000)]])]),
        output_file = Some [], resolved_output_path = ''/a/synthetic_chart.svg'', stdout = []\<rparr>)"
    using t n failure_before_write_changes_nothing [of "\<lparr>str_of = \<lambda>v. [], encodable = \<lambda>s. \<forall>c\<in>set s. of_char c < (128 :: nat), fault = None\<rparr>"
      "\<lparr>data_file = Document (JObj [(''points'', JArr [JObj [(''label'', JStr [CHR 0xE9]), (''totalValue'', JNum 1000)]])]),
        output_file = Some ''old'', resolved_output_path = ''/a/synthetic_chart.svg'', stdout = []\<rparr>" _ _ _ _ doc]
    by simp
  from 1 2 3 4 5 6 show ?thesis by blast
qed

end
